theory Spec2Isabelle
  imports Complex_Main "HOL-Library.Word"
begin

text \<open>
  The model follows \<^verbatim>\<open>index.js\<close>. The second source file of the repository is an
  earlier variant of it, with the same \<^verbatim>\<open>processContent\<close> and \<^verbatim>\<open>PDFChatbot\<close> and
  without the SheetDB service, the marker check and \<^verbatim>\<open>handleUserInfoIntent\<close>.
\<close>

section \<open>JavaScript strings and values\<close>

text \<open>
  A JavaScript string is a sequence of UTF-16 code units; the regular expressions of
  \<^verbatim>\<open>index.js\<close> carry no \<^verbatim>\<open>u\<close> flag, so they work on code units too.
  String literals of the source are written \<open>js ''...''\<close>.
\<close>

type_synonym code_unit = "16 word"
type_synonym jsstring = "code_unit list"

abbreviation js :: "string \<Rightarrow> jsstring" where
  "js s \<equiv> map of_char s"

text \<open>
  The values a handler can meet: what JSON carries, plus \<^verbatim>\<open>undefined\<close> for a
  missing property. Numbers only matter through their truthiness here; \<open>JObj\<close> stands
  for any object or array.
\<close>

datatype jsval = JUndefined | JNull | JBool bool | JNum int | JStr jsstring | JObj

fun truthy :: "jsval \<Rightarrow> bool" where
  "truthy JUndefined = False"
| "truthy JNull = False"
| "truthy (JBool b) = b"
| "truthy (JNum n) = (n \<noteq> 0)"
| "truthy (JStr s) = (s \<noteq> [])"
| "truthy JObj = True"

fun is_string :: "jsval \<Rightarrow> bool" where
  "is_string (JStr s) = True"
| "is_string v = False"

text \<open>\<^verbatim>\<open>a || b\<close>\<close>

definition js_or :: "jsval \<Rightarrow> jsval \<Rightarrow> jsval" where
  "js_or a b = (if truthy a then a else b)"

section \<open>The normalizer: \<^verbatim>\<open>processContent\<close>\<close>

text \<open>
  \<^verbatim>\<open>\s\<close> and \<^verbatim>\<open>String.prototype.trim\<close> share one set of code units: the
  ECMAScript WhiteSpace and LineTerminator productions.
\<close>

definition is_ws :: "code_unit \<Rightarrow> bool" where
  "is_ws c = (c = 0x09 \<or> c = 0x0A \<or> c = 0x0B \<or> c = 0x0C \<or> c = 0x0D \<or> c = 0x20
     \<or> c = 0xA0 \<or> c = 0x1680 \<or> (0x2000 \<le> c \<and> c \<le> 0x200A) \<or> c = 0x2028
     \<or> c = 0x2029 \<or> c = 0x202F \<or> c = 0x205F \<or> c = 0x3000 \<or> c = 0xFEFF)"

text \<open>\<^verbatim>\<open>\w\<close> is \<^verbatim>\<open>[A-Za-z0-9_]\<close>.\<close>

definition is_word :: "code_unit \<Rightarrow> bool" where
  "is_word c = ((of_char CHR ''A'' \<le> c \<and> c \<le> of_char CHR ''Z'')
     \<or> (of_char CHR ''a'' \<le> c \<and> c \<le> of_char CHR ''z'')
     \<or> (of_char CHR ''0'' \<le> c \<and> c \<le> of_char CHR ''9'')
     \<or> c = of_char CHR ''_'')"

text \<open>The character class \<^verbatim>\<open>[\w\s.,!?()-]\<close>; the source's regex is its complement.\<close>

definition in_class :: "code_unit \<Rightarrow> bool" where
  "in_class c = (is_word c \<or> is_ws c \<or> c = of_char CHR ''.'' \<or> c = of_char CHR '',''
     \<or> c = of_char CHR ''!'' \<or> c = of_char CHR ''?'' \<or> c = of_char CHR ''(''
     \<or> c = of_char CHR '')'' \<or> c = of_char CHR ''-'')"

text \<open>\<^verbatim>\<open>s.trim()\<close>\<close>

definition trim :: "jsstring \<Rightarrow> jsstring" where
  "trim s = rev (dropWhile is_ws (rev (dropWhile is_ws s)))"

text \<open>
  \<^verbatim>\<open>s.replace(/[p]+/g, r)\<close>: scanning from the left, a code unit in the class starts
  a match that takes the whole run (the quantifier is greedy); the match is replaced by
  \<open>r\<close> and the scan goes on after it.
\<close>

function replace_runs :: "('a \<Rightarrow> bool) \<Rightarrow> 'a list \<Rightarrow> 'a list \<Rightarrow> 'a list" where
  "replace_runs p r [] = []"
| "replace_runs p r (c # cs) =
     (if p c then r @ replace_runs p r (dropWhile p cs) else c # replace_runs p r cs)"
  by pat_completeness auto
termination
  by (relation "measure (\<lambda>(p, r, s). length s)") (auto simp: length_dropWhile_le less_Suc_eq_le)

text \<open>\<^verbatim>\<open>s.replace(/[p]/g, r)\<close>: every single code unit in the class is replaced.\<close>

fun replace_each :: "('a \<Rightarrow> bool) \<Rightarrow> 'a list \<Rightarrow> 'a list \<Rightarrow> 'a list" where
  "replace_each p r [] = []"
| "replace_each p r (c # cs) =
     (if p c then r @ replace_each p r cs else c # replace_each p r cs)"

definition processContent :: "jsval \<Rightarrow> jsstring" where
  "processContent content =
     (if \<not> truthy content \<or> \<not> is_string content then js ''''
      else case content of
             JStr s \<Rightarrow> replace_each (\<lambda>c. \<not> in_class c) (js '''')
                         (replace_runs is_ws (js '' '') (trim s))
           | _ \<Rightarrow> js '''')"

subsection \<open>The normalizer as the specification words it\<close>

text \<open>
  Leading whitespace is dropped, then trailing whitespace; a run of whitespace is read
  with a flag telling whether the scan is inside a run; the last pass keeps the code
  units of the allowed set.
\<close>

definition drop_trailing_ws :: "jsstring \<Rightarrow> jsstring" where
  "drop_trailing_ws s = foldr (\<lambda>c acc. if is_ws c \<and> acc = [] then [] else c # acc) s []"

definition trim_both :: "jsstring \<Rightarrow> jsstring" where
  "trim_both s = drop_trailing_ws (dropWhile is_ws s)"

fun collapse_from :: "bool \<Rightarrow> jsstring \<Rightarrow> jsstring" where
  "collapse_from in_run [] = []"
| "collapse_from in_run (c # cs) =
     (if is_ws c then (if in_run then collapse_from True cs else 0x20 # collapse_from True cs)
      else c # collapse_from False cs)"

definition collapse_whitespace :: "jsstring \<Rightarrow> jsstring" where
  "collapse_whitespace s = collapse_from False s"

definition allowed_set :: "code_unit set" where
  "allowed_set = {c. is_word c} \<union> {c. is_ws c} \<union> set (js ''.,!?()-'')"

definition normalize_spec :: "jsstring \<Rightarrow> jsstring" where
  "normalize_spec s = filter (\<lambda>c. c \<in> allowed_set) (collapse_whitespace (trim_both s))"

text \<open>A string all of whose code units are in the allowed set.\<close>

definition all_allowed :: "jsstring \<Rightarrow> bool" where
  "all_allowed s = list_all in_class s"

section \<open>The answering path: \<^verbatim>\<open>PDFChatbot\<close>\<close>

text \<open>A thrown \<^verbatim>\<open>Error\<close>, with its message.\<close>

datatype error = Error jsstring

text \<open>
  The collaborators are objects of libraries; each is modelled by what its one method
  returns: \<^verbatim>\<open>vectorStore.asRetriever(k).getRelevantDocuments(q)\<close> gives the
  \<^verbatim>\<open>pageContent\<close> of each document found, in the retriever's order, and
  \<^verbatim>\<open>llm.invoke(prompt)\<close> gives \<^verbatim>\<open>response.content\<close>; either may throw.
  \<^verbatim>\<open>vectorStore\<close> is \<^verbatim>\<open>null\<close> until \<^verbatim>\<open>loadAndProcessPDF\<close> has built it.
\<close>

type_synonym vector_store = "nat \<Rightarrow> jsstring \<Rightarrow> error + jsval list"

record PDFChatbot =
  llm :: "jsstring \<Rightarrow> error + jsval"
  vectorStore :: "vector_store option"

text \<open>\<^verbatim>\<open>new PDFChatbot()\<close>, once the API key is there.\<close>

definition new_PDFChatbot :: "(jsstring \<Rightarrow> error + jsval) \<Rightarrow> PDFChatbot" where
  "new_PDFChatbot model = \<lparr>llm = model, vectorStore = None\<rparr>"

text \<open>
  \<^verbatim>\<open>loadAndProcessPDF\<close>: \<open>read_pdf\<close> stands for the file check, the read and
  \<^verbatim>\<open>pdf-parse\<close>, \<open>splitter\<close> for \<^verbatim>\<open>RecursiveCharacterTextSplitter\<close> with its
  \<^verbatim>\<open>chunkSize\<close> and \<^verbatim>\<open>chunkOverlap\<close>, \<open>fromDocuments\<close> for
  \<^verbatim>\<open>MemoryVectorStore.fromDocuments\<close> with the embeddings. Any error is logged and
  rethrown.
\<close>

definition loadAndProcessPDF ::
  "(jsstring \<Rightarrow> error + jsval) \<Rightarrow> (nat \<Rightarrow> nat \<Rightarrow> jsstring \<Rightarrow> jsstring list) \<Rightarrow>
   (jsstring list \<Rightarrow> error + vector_store) \<Rightarrow> PDFChatbot \<Rightarrow> jsstring \<Rightarrow> error + PDFChatbot" where
  "loadAndProcessPDF read_pdf splitter fromDocuments this pdfPath =
     (case read_pdf pdfPath of
        Inl e \<Rightarrow> Inl e
      | Inr pdfData_text \<Rightarrow>
          let processedPdfText = processContent pdfData_text;
              splitTexts = splitter 1000 200 processedPdfText
          in case fromDocuments splitTexts of
               Inl e \<Rightarrow> Inl e
             | Inr store \<Rightarrow> Inr (this\<lparr>vectorStore := Some store\<rparr>))"

text \<open>\<^verbatim>\<open>array.join(sep)\<close> on an array of strings.\<close>

fun join :: "jsstring \<Rightarrow> jsstring list \<Rightarrow> jsstring" where
  "join sep [] = []"
| "join sep [x] = x"
| "join sep (x # y # ys) = x @ sep @ join sep (y # ys)"

text \<open>
  The template literal of \<^verbatim>\<open>queryPDF\<close>, cut at its two substitutions: the text before
  \<^verbatim>\<open>${context}\<close>, the text between it and \<^verbatim>\<open>${processedQuery}\<close>, and the rest.
\<close>

definition prompt_head :: jsstring where
  \<open>prompt_head = js
    (''\<newline>'' @
     ''            Context Information:\<newline>'' @
     ''                '')\<close>

definition prompt_mid :: jsstring where
  \<open>prompt_mid = js
    (''\<newline>'' @
     ''                \<newline>'' @
     ''            Query: '')\<close>

definition prompt_tail :: jsstring where
  \<open>prompt_tail = js
    (''\<newline>'' @
     ''            \<newline>'' @
     ''            Instructions:\<newline>'' @
     ''            1. Analyze the provided context carefully.\<newline>'' @
     ''            2. Generate a concise, precise, and informative answer directly based on the context.\<newline>'' @
     ''            3. Keep the response:\<newline>'' @
     ''               - Strictly limited to information from the provided context.\<newline>'' @
     ''               - Clear, easily understandable, and directly related to the query.\<newline>'' @
     ''               \<newline>'' @
     ''            Response Guidelines:\<newline>'' @
     ''            - If the context does not contain sufficient information to answer the query:\<newline>'' @
     ''               * Respond with: "I do not have enough information to answer this question."\<newline>'' @
     ''               * Suggest: "Please ask a different question related to the available content."\<newline>'' @
     ''               \<newline>'' @
     ''            - If the query involves legal issues or deportation-related questions:\<newline>'' @
     ''               * Acknowledge the issue and suggest seeking legal help if the context doesn't contain detailed information.\<newline>'' @
     ''               * Use a response like: "It seems like you need legal assistance regarding deportation. Please consult a lawyer specializing in deportation matters."\<newline>'' @
     ''               \<newline>'' @
     ''            - If the query is asking about the chatbot itself, such as "What is this chatbot about?" or "What can this chatbot do?", and the context contains information about the chatbot's purpose or functionality, provide a clear description of the chatbot's role or capabilities based on the context.\<newline>'' @
     ''        \<newline>'' @
     ''            Constraints:\<newline>'' @
     ''            - Do not reference the source document.\<newline>'' @
     ''            - Do not disclose any details about the document's origin.\<newline>'' @
     ''            - Provide only the most relevant information.\<newline>'' @
     ''              \<newline>'' @
     ''            Response Format:\<newline>'' @
     ''            [Concise Answer]\<newline>'' @
     ''        '')\<close>

text \<open>
  The two sentences the prompt tells the model to answer with when the context is not
  enough.
\<close>

definition refusal_sentence :: jsstring where
  "refusal_sentence = js ''I do not have enough information to answer this question.''"

definition suggestion_sentence :: jsstring where
  "suggestion_sentence =
     js ''Please ask a different question related to the available content.''"

text \<open>The context block and the prompt built from the documents found.\<close>

definition context_block :: "jsval list \<Rightarrow> jsstring" where
  "context_block relevantDocs =
     join (js ''\<newline>\<newline>'') (map (\<lambda>doc. processContent doc) relevantDocs)"

definition assemble_prompt :: "jsval list \<Rightarrow> jsstring \<Rightarrow> jsstring" where
  "assemble_prompt relevantDocs processedQuery =
     prompt_head @ context_block relevantDocs @ prompt_mid @ processedQuery @ prompt_tail"

definition queryPDF :: "PDFChatbot \<Rightarrow> jsval \<Rightarrow> error + jsstring" where
  "queryPDF this query =
     (case vectorStore this of
        None \<Rightarrow> Inl (Error (js ''PDF not loaded. Call loadAndProcessPDF first.''))
      | Some store \<Rightarrow>
          let processedQuery = processContent query
          in case store 4 processedQuery of
               Inl e \<Rightarrow> Inl e
             | Inr relevantDocs \<Rightarrow>
                 let prompt = assemble_prompt relevantDocs processedQuery
                 in case llm this prompt of
                      Inl e \<Rightarrow> Inl e
                    | Inr response_content \<Rightarrow> Inr (processContent response_content))"

section \<open>The Dialogflow agent and the intent handlers\<close>

text \<open>
  What the handlers use of the \<^verbatim>\<open>WebhookClient\<close>: the matched intent, the query text,
  the parameters, the contexts of the session by name, and the replies added so far.
  A context may come without parameters.
\<close>

record dialogflow_context =
  ctx_name :: jsstring
  lifespan :: nat
  ctx_parameters :: "(jsstring \<rightharpoonup> jsval) option"

record agent =
  intent :: jsstring
  agent_query :: jsval
  parameters :: "jsstring \<rightharpoonup> jsval"
  contexts :: "jsstring \<rightharpoonup> dialogflow_context"
  responses :: "jsstring list"

definition agent_add :: "agent \<Rightarrow> jsstring \<Rightarrow> agent" where
  "agent_add a message = a\<lparr>responses := responses a @ [message]\<rparr>"

definition setContext :: "agent \<Rightarrow> dialogflow_context \<Rightarrow> agent" where
  "setContext a c = a\<lparr>contexts := (contexts a)(ctx_name c \<mapsto> c)\<rparr>"

definition getContext :: "agent \<Rightarrow> jsstring \<Rightarrow> dialogflow_context option" where
  "getContext a n = contexts a n"

text \<open>Reading a property that may be missing gives \<^verbatim>\<open>undefined\<close>.\<close>

definition get_prop :: "(jsstring \<rightharpoonup> jsval) \<Rightarrow> jsstring \<Rightarrow> jsval" where
  "get_prop obj k = (case obj k of None \<Rightarrow> JUndefined | Some v \<Rightarrow> v)"

text \<open>\<^verbatim>\<open>s.includes(pat)\<close>\<close>

fun starts_with :: "'a list \<Rightarrow> 'a list \<Rightarrow> bool" where
  "starts_with s [] = True"
| "starts_with [] (p # ps) = False"
| "starts_with (c # cs) (p # ps) = (c = p \<and> starts_with cs ps)"

fun str_includes :: "'a list \<Rightarrow> 'a list \<Rightarrow> bool" where
  "str_includes [] pat = (pat = [])"
| "str_includes (c # cs) pat = (starts_with (c # cs) pat \<or> str_includes cs pat)"

definition handleWelcomeIntent :: "agent \<Rightarrow> agent" where
  "handleWelcomeIntent a = agent_add a (js ''Hi there! How can I assist you today?'')"

text \<open>The string literals of \<^verbatim>\<open>handleFallbackIntent\<close>, named.\<close>

definition insufficient_marker :: jsstring where
  "insufficient_marker = js ''I do not have enough information''"

definition contact_request_message :: jsstring where
  "contact_request_message =
     js (''I couldn't find an answer to your question. '' @
         ''Could you please provide your email? '' @
         ''We'll get back to you with more information.'')"

definition processing_apology :: jsstring where
  "processing_apology = js ''Sorry, I couldn't process your request right now.''"

definition handleFallbackIntent :: "PDFChatbot \<Rightarrow> jsval \<Rightarrow> agent \<Rightarrow> agent" where
  "handleFallbackIntent pdfChatbot userQuery a =
     (case queryPDF pdfChatbot userQuery of
        Inr answer \<Rightarrow>
          if str_includes answer insufficient_marker
          then setContext (agent_add a contact_request_message)
                 \<lparr>ctx_name = js ''awaiting_user_info'',
                  lifespan = 2,
                  ctx_parameters = Some [js ''original_query'' \<mapsto> userQuery]\<rparr>
          else agent_add a answer
      | Inl e \<Rightarrow> agent_add a processing_apology)"

text \<open>
  The row sent to SheetDB, and the client: \<^verbatim>\<open>client.create(data)\<close> answers or throws,
  and acts on the sheet \<open>'db\<close>.
\<close>

record unresolved_query =
  name :: jsval
  email :: jsval
  query :: jsval
  timestamp :: jsstring

record 'db SheetDBService =
  client :: "unresolved_query \<Rightarrow> 'db \<Rightarrow> (error + jsval) \<times> 'db"

definition addUnresolvedQuery ::
  "'db SheetDBService \<Rightarrow> unresolved_query \<Rightarrow> 'db \<Rightarrow> (error + jsval) \<times> 'db" where
  "addUnresolvedQuery this data db =
     (case client this data db of
        (Inr response, db') \<Rightarrow> (Inr response, db')
      | (Inl e, db') \<Rightarrow> (Inl e, db'))"

text \<open>
  \<^verbatim>\<open>agent.getContext('awaiting_user_info')?.parameters?.original_query || 'N/A'\<close>
\<close>

definition originalQuery_of :: "agent \<Rightarrow> jsval" where
  "originalQuery_of a =
     js_or (case getContext a (js ''awaiting_user_info'') of
              None \<Rightarrow> JUndefined
            | Some c \<Rightarrow> (case ctx_parameters c of
                          None \<Rightarrow> JUndefined
                        | Some ps \<Rightarrow> get_prop ps (js ''original_query'')))
           (JStr (js ''N/A''))"

text \<open>The object literal handed to \<^verbatim>\<open>addUnresolvedQuery\<close>; \<open>now\<close> is the clock's ISO string.\<close>

definition unresolved_query_of :: "jsstring \<Rightarrow> agent \<Rightarrow> unresolved_query" where
  "unresolved_query_of now a =
     \<lparr>name = get_prop (parameters a) (js ''name''),
      email = get_prop (parameters a) (js ''email''),
      query = originalQuery_of a,
      timestamp = now\<rparr>"

text \<open>The string literals of \<^verbatim>\<open>handleUserInfoIntent\<close>, named.\<close>

definition acknowledgement_message :: jsstring where
  "acknowledgement_message =
     js ''Thank you, We've recorded your query and will follow up via email.''"

definition saving_apology :: jsstring where
  "saving_apology =
     js ''Sorry, there was an issue saving your information. Please try again later.''"

definition handleUserInfoIntent ::
  "'db SheetDBService \<Rightarrow> jsstring \<Rightarrow> agent \<Rightarrow> 'db \<Rightarrow> agent \<times> 'db" where
  "handleUserInfoIntent sheetdbService now a db =
     (case addUnresolvedQuery sheetdbService (unresolved_query_of now a) db of
        (Inr response, db') \<Rightarrow> (agent_add a acknowledgement_message, db')
      | (Inl e, db') \<Rightarrow> (agent_add a saving_apology, db'))"

section \<open>Startup and the Dialogflow webhook\<close>

record 'db services =
  pdfChatbot :: "PDFChatbot option"
  sheetdbService :: "'db SheetDBService option"

text \<open>
  The states the two module variables go through while the startup function runs:
  both undefined; the chatbot constructed; the document loaded; the SheetDB service
  set. A failure on the way exits the process, so it adds no state.
\<close>

inductive startup ::
  "(jsstring \<Rightarrow> error + jsval) \<Rightarrow> (nat \<Rightarrow> nat \<Rightarrow> jsstring \<Rightarrow> jsstring list) \<Rightarrow>
   (jsstring list \<Rightarrow> error + vector_store) \<Rightarrow> jsstring \<Rightarrow> 'db services \<Rightarrow> bool"
  for read_pdf splitter fromDocuments PDF_PATH where
  undefined_vars:
    "startup read_pdf splitter fromDocuments PDF_PATH
       \<lparr>pdfChatbot = None, sheetdbService = None\<rparr>"
| constructed:
    "startup read_pdf splitter fromDocuments PDF_PATH
       \<lparr>pdfChatbot = Some (new_PDFChatbot model), sheetdbService = None\<rparr>"
| loaded:
    "loadAndProcessPDF read_pdf splitter fromDocuments (new_PDFChatbot model) PDF_PATH = Inr chatbot \<Longrightarrow>
     startup read_pdf splitter fromDocuments PDF_PATH
       \<lparr>pdfChatbot = Some chatbot, sheetdbService = None\<rparr>"
| initialized:
    "loadAndProcessPDF read_pdf splitter fromDocuments (new_PDFChatbot model) PDF_PATH = Inr chatbot \<Longrightarrow>
     startup read_pdf splitter fromDocuments PDF_PATH
       \<lparr>pdfChatbot = Some chatbot, sheetdbService = Some service\<rparr>"

text \<open>Whether the vector index has been built.\<close>

definition index_built :: "'db services \<Rightarrow> bool" where
  "index_built s =
     (case pdfChatbot s of None \<Rightarrow> False | Some chatbot \<Rightarrow> vectorStore chatbot \<noteq> None)"

text \<open>
  What the webhook does with a request: an HTTP status with a body, or the agent's
  reply after a handler ran, or no handler for the intent (the library's affair).
\<close>

datatype 'db outcome = HttpStatus nat jsstring | Fulfilled agent 'db | NoHandler

definition intentMap ::
  "PDFChatbot \<Rightarrow> 'db SheetDBService \<Rightarrow> jsstring \<Rightarrow> jsval \<Rightarrow>
   jsstring \<rightharpoonup> (agent \<Rightarrow> 'db \<Rightarrow> agent \<times> 'db)" where
  "intentMap chatbot service now userQuery =
     [js ''Default Welcome Intent'' \<mapsto> (\<lambda>a db. (handleWelcomeIntent a, db)),
      js ''Default Fallback Intent'' \<mapsto> (\<lambda>a db. (handleFallbackIntent chatbot userQuery a, db)),
      js ''PDF_Query_Intent'' \<mapsto> (\<lambda>a db. (handleFallbackIntent chatbot userQuery a, db)),
      js ''Collect_User_Info'' \<mapsto> handleUserInfoIntent service now]"

definition dialogflow_webhook ::
  "'db services \<Rightarrow> jsstring \<Rightarrow> jsval \<Rightarrow> agent \<Rightarrow> 'db \<Rightarrow> 'db outcome" where
  "dialogflow_webhook s now queryText a db =
     (case (pdfChatbot s, sheetdbService s) of
        (Some chatbot, Some service) \<Rightarrow>
          let userQuery = js_or (js_or (agent_query a) queryText) (JStr (js ''No query found''))
          in (case intentMap chatbot service now userQuery (intent a) of
                Some handler \<Rightarrow> (case handler a db of (a', db') \<Rightarrow> Fulfilled a' db')
              | None \<Rightarrow> NoHandler)
      | _ \<Rightarrow> HttpStatus 503 (js ''Services not initialized''))"

section \<open>The conversation state a session is in\<close>

text \<open>
  The session is awaiting contact information while it holds a live
  \<^verbatim>\<open>awaiting_user_info\<close> context; the context's \<^verbatim>\<open>original_query\<close> parameter and
  lifespan are the original query and the remaining turns.
\<close>

datatype conversation_state = Answering | AwaitingContactInfo

record ConversationContext =
  state :: conversation_state
  originalQuery :: "jsval option"
  remainingTurns :: nat

definition conversation :: "agent \<Rightarrow> ConversationContext" where
  "conversation a =
     (case getContext a (js ''awaiting_user_info'') of
        None \<Rightarrow> \<lparr>state = Answering, originalQuery = None, remainingTurns = 0\<rparr>
      | Some c \<Rightarrow>
          if lifespan c = 0
          then \<lparr>state = Answering, originalQuery = None, remainingTurns = 0\<rparr>
          else \<lparr>state = AwaitingContactInfo,
                originalQuery = (case ctx_parameters c of
                                   None \<Rightarrow> None
                                 | Some ps \<Rightarrow> ps (js ''original_query'')),
                remainingTurns = lifespan c\<rparr>)"

section \<open>The vector index\<close>

text \<open>
  Modelled from the spec: a Chunk of section 3; the chunks are made by the
  \<^verbatim>\<open>RecursiveCharacterTextSplitter\<close> of the langchain package, whose code is not
  under \<^verbatim>\<open>src/\<close>.
\<close>

record chunk =
  chunk_id :: nat
  chunk_text :: jsstring
  sourceOffset :: nat

text \<open>
  Modelled from the spec: the similarity metric of section 4.3, cosine similarity, which
  the \<^verbatim>\<open>MemoryVectorStore\<close> of the langchain package computes and whose code is not
  under \<^verbatim>\<open>src/\<close>; taken over the reals.
\<close>

definition cosine_similarity :: "real list \<Rightarrow> real list \<Rightarrow> real" where
  "cosine_similarity u v =
     (\<Sum>(x, y)\<leftarrow>zip u v. x * y) / (sqrt (\<Sum>x\<leftarrow>u. x * x) * sqrt (\<Sum>y\<leftarrow>v. y * y))"

text \<open>
  Modelled from the spec: \<^verbatim>\<open>build(chunks)\<close> of section 4.3
  (\<^verbatim>\<open>MemoryVectorStore.fromDocuments\<close>, not under \<^verbatim>\<open>src/\<close>): one call of the
  embedding collaborator for each chunk, and failure when the collaborator fails.
\<close>

fun build :: "(jsstring \<Rightarrow> error + 'e) \<Rightarrow> chunk list \<Rightarrow> error + (chunk \<times> 'e) list" where
  "build embedder [] = Inr []"
| "build embedder (c # cs) =
     (case embedder (chunk_text c) of
        Inl e \<Rightarrow> Inl e
      | Inr v \<Rightarrow> (case build embedder cs of
                    Inl e \<Rightarrow> Inl e
                  | Inr index \<Rightarrow> Inr ((c, v) # index)))"

text \<open>
  Modelled from the spec: the order of a RetrievalResult (section 3; the sort is in the
  \<^verbatim>\<open>MemoryVectorStore\<close>, not under \<^verbatim>\<open>src/\<close>): the higher score first, and of two
  equal scores the lower chunk id first.
\<close>

fun ranks_before :: "chunk \<times> 's::linorder \<Rightarrow> chunk \<times> 's \<Rightarrow> bool" where
  "ranks_before (c, s) (d, t) = (t < s \<or> (s = t \<and> chunk_id c < chunk_id d))"

text \<open>
  Modelled from the spec: the selection of section 4.3 (in the \<^verbatim>\<open>MemoryVectorStore\<close>,
  not under \<^verbatim>\<open>src/\<close>), as an insertion sort by that order.
\<close>

fun insert_ranked :: "chunk \<times> 's::linorder \<Rightarrow> (chunk \<times> 's) list \<Rightarrow> (chunk \<times> 's) list" where
  "insert_ranked x [] = [x]"
| "insert_ranked x (y # ys) =
     (if ranks_before x y then x # y # ys else y # insert_ranked x ys)"

fun rank :: "(chunk \<times> 's::linorder) list \<Rightarrow> (chunk \<times> 's) list" where
  "rank [] = []"
| "rank (x # xs) = insert_ranked x (rank xs)"

text \<open>
  Modelled from the spec: the score of every chunk of the index against the query
  embedding (section 4.3; in the \<^verbatim>\<open>MemoryVectorStore\<close>, not under \<^verbatim>\<open>src/\<close>).
\<close>

definition scored :: "('e \<Rightarrow> 'e \<Rightarrow> 's) \<Rightarrow> (chunk \<times> 'e) list \<Rightarrow> 'e \<Rightarrow> (chunk \<times> 's) list" where
  "scored similarity index queryEmbedding =
     map (\<lambda>(c, v). (c, similarity queryEmbedding v)) index"

text \<open>
  Modelled from the spec: \<^verbatim>\<open>query(index, queryEmbedding, k)\<close> of section 4.3
  (\<^verbatim>\<open>MemoryVectorStore.similaritySearchVectorWithScore\<close>, not under \<^verbatim>\<open>src/\<close>):
  the \<open>k\<close> chunks that rank first.
\<close>

definition index_query ::
  "('e \<Rightarrow> 'e \<Rightarrow> 's::linorder) \<Rightarrow> (chunk \<times> 'e) list \<Rightarrow> 'e \<Rightarrow> nat \<Rightarrow> (chunk \<times> 's) list" where
  "index_query similarity index queryEmbedding k =
     take k (rank (scored similarity index queryEmbedding))"

text \<open>The \<open>k\<close> that \<^verbatim>\<open>queryPDF\<close> passes to \<^verbatim>\<open>asRetriever\<close>.\<close>

definition default_k :: nat where
  "default_k = 4"

text \<open>
  A turn for which the handler finds no original query: no \<^verbatim>\<open>awaiting_user_info\<close>
  context, or one without parameters, or without \<^verbatim>\<open>original_query\<close> among them.
\<close>

definition lacks_original_query :: "agent \<Rightarrow> bool" where
  "lacks_original_query a =
     (case getContext a (js ''awaiting_user_info'') of
        None \<Rightarrow> True
      | Some c \<Rightarrow> (case ctx_parameters c of
                    None \<Rightarrow> True
                  | Some ps \<Rightarrow> ps (js ''original_query'') = None))"

section \<open>Sample collaborators\<close>

text \<open>
  A sheet that stores every row it is given, a sheet whose API is down, a model that
  always gives the same text, and a store that always finds the same documents.
\<close>

definition accepting_sheet :: "unresolved_query list SheetDBService" where
  "accepting_sheet = \<lparr>client = (\<lambda>data db. (Inr JObj, db @ [data]))\<rparr>"

definition failing_sheet :: "unresolved_query list SheetDBService" where
  "failing_sheet = \<lparr>client = (\<lambda>data db. (Inl (Error (js ''503'')), db))\<rparr>"

definition constant_model :: "jsval \<Rightarrow> jsstring \<Rightarrow> error + jsval" where
  "constant_model content prompt = Inr content"

definition constant_store :: "jsval list \<Rightarrow> vector_store" where
  "constant_store docs k q = Inr (take k docs)"

text \<open>
  A chatbot whose model finds nothing to say and answers with the two fixed sentences,
  and one whose model answers the question.
\<close>

definition refusing_chatbot :: PDFChatbot where
  "refusing_chatbot =
     \<lparr>llm = constant_model (JStr (refusal_sentence @ js '' '' @ suggestion_sentence)),
      vectorStore = Some (constant_store [JStr (js ''Office hours are 9-5 Monday to Friday.'')])\<rparr>"

definition answering_chatbot :: PDFChatbot where
  "answering_chatbot =
     \<lparr>llm = constant_model (JStr (js ''  Office hours: 9-5, *Monday* to Friday.'')),
      vectorStore = Some (constant_store [JStr (js ''Office hours are 9-5 Monday to Friday.'')])\<rparr>"

text \<open>A turn of a fresh session, and one of a session that was asked for its contact.\<close>

definition fresh_agent :: "jsstring \<Rightarrow> jsstring \<Rightarrow> agent" where
  "fresh_agent i q =
     \<lparr>intent = i, agent_query = JStr q, parameters = Map.empty, contexts = Map.empty,
      responses = []\<rparr>"

definition awaiting_agent :: agent where
  "awaiting_agent =
     \<lparr>intent = js ''Collect_User_Info'',
      agent_query = JStr (js ''Ana, ana@x.com''),
      parameters = [js ''name'' \<mapsto> JStr (js ''Ana''), js ''email'' \<mapsto> JStr (js ''ana@x.com'')],
      contexts = [js ''awaiting_user_info'' \<mapsto>
         \<lparr>ctx_name = js ''awaiting_user_info'', lifespan = 1,
          ctx_parameters = Some [js ''original_query'' \<mapsto> JStr (js ''refund policy'')]\<rparr>],
      responses = []\<rparr>"

text \<open>
  A document source, a splitter that keeps the text whole and a store builder, for a
  startup that succeeds.
\<close>

definition sample_read_pdf :: "jsstring \<Rightarrow> error + jsval" where
  "sample_read_pdf pdfPath = Inr (JStr (js ''Office hours are 9-5 Monday to Friday.''))"

definition whole_text_splitter :: "nat \<Rightarrow> nat \<Rightarrow> jsstring \<Rightarrow> jsstring list" where
  "whole_text_splitter chunkSize chunkOverlap t = [t]"

definition sample_fromDocuments :: "jsstring list \<Rightarrow> error + vector_store" where
  "sample_fromDocuments splitTexts = Inr (constant_store (map JStr splitTexts))"

text \<open>The services while the document is still being loaded.\<close>

definition loading_services :: "unresolved_query list services" where
  "loading_services =
     \<lparr>pdfChatbot = Some (new_PDFChatbot (constant_model JNull)), sheetdbService = None\<rparr>"

text \<open>Three chunks, two of them with the same text, and their embeddings.\<close>

definition sample_chunks :: "chunk list" where
  "sample_chunks =
     [\<lparr>chunk_id = 0, chunk_text = js ''fees'', sourceOffset = 0\<rparr>,
      \<lparr>chunk_id = 1, chunk_text = js ''hours'', sourceOffset = 4\<rparr>,
      \<lparr>chunk_id = 2, chunk_text = js ''hours'', sourceOffset = 9\<rparr>]"

definition sample_embedder :: "jsstring \<Rightarrow> error + real list" where
  "sample_embedder t = Inr (if t = js ''hours'' then [1, 0] else [0, 1])"

definition sample_index :: "(chunk \<times> real list) list" where
  "sample_index =
     [(\<lparr>chunk_id = 0, chunk_text = js ''fees'', sourceOffset = 0\<rparr>, [0, 1]),
      (\<lparr>chunk_id = 1, chunk_text = js ''hours'', sourceOffset = 4\<rparr>, [1, 0]),
      (\<lparr>chunk_id = 2, chunk_text = js ''hours'', sourceOffset = 9\<rparr>, [1, 0])]"

section \<open>Properties of the normalizer\<close>

lemma is_ws_space: "is_ws 0x20"
  by (simp add: is_ws_def)

lemma in_class_ws: "is_ws c \<Longrightarrow> in_class c"
  by (simp add: in_class_def)

lemma in_class_allowed_set: "in_class c \<longleftrightarrow> c \<in> allowed_set"
  by (auto simp: in_class_def allowed_set_def)

lemma replace_each_filter: "replace_each (\<lambda>c. \<not> p c) [] s = filter p s"
  by (induction s) auto

lemma collapse_from_True: "collapse_from True s = collapse_from False (dropWhile is_ws s)"
  by (induction s) auto

lemma replace_runs_collapse: "replace_runs is_ws [0x20] s = collapse_from False s"
proof (induction is_ws "[0x20 :: code_unit]" s rule: replace_runs.induct)
  case 1
  show ?case by simp
next
  case (2 c cs)
  show ?case
  proof (cases "is_ws c")
    case True
    with 2 show ?thesis by (simp add: collapse_from_True)
  next
    case False
    with 2 show ?thesis by simp
  qed
qed

lemma drop_trailing_ws_rev: "drop_trailing_ws s = rev (dropWhile is_ws (rev s))"
proof (induction s)
  case Nil
  show ?case by (simp add: drop_trailing_ws_def)
next
  case (Cons c cs)
  have "drop_trailing_ws (c # cs) =
      (if is_ws c \<and> drop_trailing_ws cs = [] then [] else c # drop_trailing_ws cs)"
    by (simp add: drop_trailing_ws_def)
  with Cons show ?case
    by (auto simp: dropWhile_append)
qed

lemma trim_trim_both: "trim s = trim_both s"
  by (simp add: trim_def trim_both_def drop_trailing_ws_rev)

lemma processContent_JStr:
  "processContent (JStr s) = filter in_class (collapse_from False (trim s))"
proof (cases "s = []")
  case True
  then show ?thesis by (simp add: processContent_def trim_def)
next
  case False
  then show ?thesis
    by (simp add: processContent_def replace_each_filter replace_runs_collapse)
qed

lemma processContent_not_string: "\<not> is_string v \<Longrightarrow> processContent v = []"
  by (simp add: processContent_def)

lemma collapse_from_idem:
  "collapse_from False (collapse_from b s) = collapse_from b s \<and>
   collapse_from True (collapse_from True s) = collapse_from True s"
  by (induction s arbitrary: b) (auto simp: is_ws_space)

lemma collapse_from_hd:
  "s \<noteq> [] \<Longrightarrow> \<not> is_ws (hd s) \<Longrightarrow> collapse_from b s \<noteq> [] \<and> hd (collapse_from b s) = hd s"
  by (cases s) auto

lemma collapse_from_last:
  "s \<noteq> [] \<Longrightarrow> \<not> is_ws (last s) \<Longrightarrow>
     collapse_from b s \<noteq> [] \<and> last (collapse_from b s) = last s"
proof (induction s arbitrary: b)
  case Nil
  then show ?case by simp
next
  case (Cons c cs)
  show ?case
  proof (cases "cs = []")
    case True
    with Cons.prems show ?thesis by simp
  next
    case False
    with Cons.prems have "\<not> is_ws (last cs)" by simp
    from Cons.IH [OF False this] have
      "\<And>b'. collapse_from b' cs \<noteq> [] \<and> last (collapse_from b' cs) = last cs" .
    with False show ?thesis by simp
  qed
qed

lemma set_collapse_from: "set (collapse_from b s) \<subseteq> insert 0x20 (set s)"
  by (induction s arbitrary: b) auto

lemma set_trim: "set (trim s) \<subseteq> set s"
  unfolding trim_def by (auto dest!: set_dropWhileD)

lemma last_dropWhile_nonempty: "dropWhile p xs \<noteq> [] \<Longrightarrow> last (dropWhile p xs) = last xs"
  by (metis takeWhile_dropWhile_id last_appendR)

lemma trim_edges:
  "trim s = [] \<or> (\<not> is_ws (hd (trim s)) \<and> \<not> is_ws (last (trim s)))"
proof (cases "trim s = []")
  case True
  then show ?thesis by simp
next
  case False
  define t where "t = dropWhile is_ws s"
  define u where "u = dropWhile is_ws (rev t)"
  have tr: "trim s = rev u" by (simp add: trim_def t_def u_def)
  with False have une: "u \<noteq> []" by simp
  then have tne: "t \<noteq> []" by (auto simp: u_def)
  have "\<not> is_ws (hd u)" using une unfolding u_def by (rule hd_dropWhile)
  then have l: "\<not> is_ws (last (trim s))" using une by (simp add: tr last_rev)
  have "last u = last (rev t)" using une unfolding u_def by (rule last_dropWhile_nonempty)
  then have "last u = hd t" using tne by (simp add: last_rev)
  moreover have "\<not> is_ws (hd t)" using tne unfolding t_def by (rule hd_dropWhile)
  ultimately have "\<not> is_ws (hd (trim s))" using une by (simp add: tr hd_rev)
  with l show ?thesis by simp
qed

lemma trim_fixed:
  assumes "s = [] \<or> (\<not> is_ws (hd s) \<and> \<not> is_ws (last s))"
  shows "trim s = s"
proof (cases "s = []")
  case True
  then show ?thesis by (simp add: trim_def)
next
  case False
  with assms have h: "\<not> is_ws (hd s)" and l: "\<not> is_ws (last s)" by simp_all
  from False h have d: "dropWhile is_ws s = s" by (cases s) simp_all
  from False l have "dropWhile is_ws (rev s) = rev s"
    by (cases "rev s") (simp_all add: last_rev)
  with d show ?thesis by (simp add: trim_def)
qed

lemma all_allowed_filter: "all_allowed s \<Longrightarrow> filter in_class s = s"
  by (simp add: all_allowed_def list_all_iff)

lemma all_allowed_collapse_trim:
  assumes "all_allowed s"
  shows "all_allowed (collapse_from False (trim s))"
proof -
  have "set (collapse_from False (trim s)) \<subseteq> insert 0x20 (set s)"
    using set_collapse_from [of False "trim s"] set_trim [of s] by auto
  moreover have "in_class 0x20" by (simp add: in_class_ws is_ws_space)
  ultimately show ?thesis using assms by (auto simp: all_allowed_def list_all_iff)
qed

lemma all_allowed_processContent: "all_allowed (processContent v)"
proof (cases v)
  case (JStr s)
  then show ?thesis by (simp add: processContent_JStr all_allowed_def list_all_iff)
qed (simp_all add: processContent_def all_allowed_def)

lemma collapse_trim_fixed:
  "collapse_from False (trim (collapse_from False (trim s))) = collapse_from False (trim s)"
proof -
  let ?t = "collapse_from False (trim s)"
  have "?t = [] \<or> (\<not> is_ws (hd ?t) \<and> \<not> is_ws (last ?t))"
  proof (cases "trim s = []")
    case True
    then show ?thesis by simp
  next
    case False
    with trim_edges [of s] have "\<not> is_ws (hd (trim s))" and "\<not> is_ws (last (trim s))"
      by simp_all
    with False show ?thesis
      using collapse_from_hd [of "trim s" False] collapse_from_last [of "trim s" False]
      by simp
  qed
  then have "trim ?t = ?t" by (rule trim_fixed)
  then show ?thesis by (simp add: collapse_from_idem)
qed

lemma processContent_idem_allowed:
  assumes "all_allowed s"
  shows "processContent (JStr (processContent (JStr s))) = processContent (JStr s)"
proof -
  let ?t = "collapse_from False (trim s)"
  have a: "all_allowed ?t" using assms by (rule all_allowed_collapse_trim)
  then have p: "processContent (JStr s) = ?t"
    by (simp add: processContent_JStr all_allowed_filter)
  have "processContent (JStr ?t) = filter in_class ?t"
    by (simp add: processContent_JStr collapse_trim_fixed)
  with a p show ?thesis by (simp add: all_allowed_filter)
qed

text \<open>
  C3, as the code has it. Normalizing twice is not the same as normalizing once: the
  disallowed characters are removed last, so removing one between two spaces leaves a
  double space that only a second pass collapses.
\<close>

theorem processContent_not_idempotent:
  "processContent (JStr (processContent (JStr (js ''a # b'')))) \<noteq>
   processContent (JStr (js ''a # b''))"
  by (simp add: processContent_def trim_def is_ws_def in_class_def is_word_def)

text \<open>
  C3, amended. \<open>processContent\<close> is idempotent on every string whose code units are all
  in the allowed set and on every input that is not a string; on any input the second
  pass reaches a fixed point.
\<close>

theorem processContent_idempotent_on_allowed:
  "(all_allowed s \<longrightarrow>
      processContent (JStr (processContent (JStr s))) = processContent (JStr s)) \<and>
   (\<not> is_string v \<longrightarrow> processContent (JStr (processContent v)) = processContent v) \<and>
   processContent (JStr (processContent (JStr (processContent v)))) =
     processContent (JStr (processContent v))"
proof (intro conjI impI)
  assume "all_allowed s"
  then show "processContent (JStr (processContent (JStr s))) = processContent (JStr s)"
    by (rule processContent_idem_allowed)
next
  assume "\<not> is_string v"
  then have "processContent v = []" by (rule processContent_not_string)
  then show "processContent (JStr (processContent v)) = processContent v"
    by (simp add: processContent_def)
next
  show "processContent (JStr (processContent (JStr (processContent v)))) =
     processContent (JStr (processContent v))"
    using all_allowed_processContent [of v] by (rule processContent_idem_allowed)
qed

theorem processContent_idempotent_on_allowed_witness:
  "all_allowed (js ''  Hi,   you! '') \<and>
   processContent (JStr (processContent (JStr (js ''  Hi,   you! '')))) = js ''Hi, you!'' \<and>
   \<not> is_string JNull \<and>
   processContent (JStr (processContent JNull)) = js '''' \<and>
   processContent (JStr (processContent (JStr (processContent (JStr (js ''a # b'')))))) = js ''a b''"
proof -
  have a: "all_allowed (js ''  Hi,   you! '')"
    by (simp add: all_allowed_def in_class_def is_ws_def is_word_def)
  have p: "processContent (JStr (js ''  Hi,   you! '')) = js ''Hi, you!''"
    by (simp add: processContent_def trim_def is_ws_def in_class_def is_word_def)
  have q: "processContent (JStr (processContent (JStr (js ''a # b'')))) = js ''a b''"
    by (simp add: processContent_def trim_def is_ws_def in_class_def is_word_def)
  have n: "processContent JNull = js ''''" by (simp add: processContent_def)
  from processContent_idempotent_on_allowed [of "js ''  Hi,   you! ''" JNull]
    processContent_idempotent_on_allowed [of "[]" "JStr (js ''a # b'')"] a p q n
  show ?thesis by simp
qed

text \<open>
  C8. An input that is not a string, or the empty string, gives the empty string (the
  function has no failing branch); a string gives itself trimmed of leading and trailing
  whitespace, then with every whitespace run collapsed to one space, then with every
  code unit outside the allowed set removed.
\<close>

theorem processContent_normalize_spec:
  "(\<not> is_string v \<or> v = JStr [] \<longrightarrow> processContent v = []) \<and>
   processContent (JStr s) = normalize_spec s"
proof
  show "\<not> is_string v \<or> v = JStr [] \<longrightarrow> processContent v = []"
    by (auto simp: processContent_def)
  have "in_class = (\<lambda>c. c \<in> allowed_set)"
    by (rule ext) (rule in_class_allowed_set)
  then show "processContent (JStr s) = normalize_spec s"
    by (simp add: processContent_JStr normalize_spec_def collapse_whitespace_def
        trim_trim_both)
qed

theorem processContent_normalize_spec_witness:
  "\<not> is_string (JNum 7) \<and> processContent (JNum 7) = [] \<and> processContent (JStr []) = [] \<and>
   processContent (JStr (js '' What's  up? ''))
     = normalize_spec (js '' What's  up? '') \<and>
   normalize_spec (js '' What's  up? '') = js ''Whats up?''"
proof -
  have "processContent (JStr (js '' What's  up? '')) = js ''Whats up?''"
    by (simp add: processContent_def trim_def is_ws_def in_class_def is_word_def)
  with processContent_normalize_spec [of "JNum 7" "js '' What's  up? ''"]
    processContent_normalize_spec [of "JStr []" "[]"]
  show ?thesis by simp
qed

section \<open>Properties of the prompt\<close>

lemma starts_with_iff: "starts_with s pat \<longleftrightarrow> (\<exists>q. s = pat @ q)"
  by (induction s pat rule: starts_with.induct) auto

lemma str_includes_iff: "str_includes s pat \<longleftrightarrow> (\<exists>p q. s = p @ pat @ q)"
proof (induction s)
  case Nil
  show ?case by auto
next
  case (Cons c cs)
  show ?case
  proof
    assume "str_includes (c # cs) pat"
    then consider "starts_with (c # cs) pat" | "str_includes cs pat" by auto
    then show "\<exists>p q. c # cs = p @ pat @ q"
    proof cases
      case 1
      then obtain q where "c # cs = pat @ q" by (auto simp: starts_with_iff)
      then have "c # cs = [] @ pat @ q" by simp
      then show ?thesis by blast
    next
      case 2
      with Cons obtain p q where "cs = p @ pat @ q" by auto
      then have "c # cs = (c # p) @ pat @ q" by simp
      then show ?thesis by blast
    qed
  next
    assume "\<exists>p q. c # cs = p @ pat @ q"
    then obtain p q where e: "c # cs = p @ pat @ q" by auto
    show "str_includes (c # cs) pat"
    proof (cases p)
      case Nil
      with e have "starts_with (c # cs) pat" by (auto simp: starts_with_iff)
      then show ?thesis by simp
    next
      case (Cons d ds)
      with e have "cs = ds @ pat @ q" by simp
      with Cons.IH have "str_includes cs pat" by blast
      then show ?thesis by simp
    qed
  qed
qed

lemma str_includes_embed: "str_includes s pat \<Longrightarrow> str_includes (a @ s @ b) pat"
proof -
  assume "str_includes s pat"
  then obtain p q where "s = p @ pat @ q" by (auto simp: str_includes_iff)
  then have "a @ s @ b = (a @ p) @ pat @ (q @ b)" by simp
  then show ?thesis unfolding str_includes_iff by blast
qed

lemma prompt_tail_split:
  \<open>prompt_tail =
     js (''\<newline>'' @
       ''            \<newline>'' @
       ''            Instructions:\<newline>'' @
       ''            1. Analyze the provided context carefully.\<newline>'' @
       ''            2. Generate a concise, precise, and informative answer directly based on the context.\<newline>'' @
       ''            3. Keep the response:\<newline>'' @
       ''               - Strictly limited to information from the provided context.\<newline>'' @
       ''               - Clear, easily understandable, and directly related to the query.\<newline>'' @
       ''               \<newline>'' @
       ''            Response Guidelines:\<newline>'' @
       ''            - If the context does not contain sufficient information to answer the query:\<newline>'' @
       ''               * Respond with: "'') @
     refusal_sentence @
     js (''"\<newline>'' @
       ''               * Suggest: "'') @
     suggestion_sentence @
     js (''"\<newline>'' @
       ''               \<newline>'' @
       ''            - If the query involves legal issues or deportation-related questions:\<newline>'' @
       ''               * Acknowledge the issue and suggest seeking legal help if the context doesn't contain detailed information.\<newline>'' @
       ''               * Use a response like: "It seems like you need legal assistance regarding deportation. Please consult a lawyer specializing in deportation matters."\<newline>'' @
       ''               \<newline>'' @
       ''            - If the query is asking about the chatbot itself, such as "What is this chatbot about?" or "What can this chatbot do?", and the context contains information about the chatbot's purpose or functionality, provide a clear description of the chatbot's role or capabilities based on the context.\<newline>'' @
       ''        \<newline>'' @
       ''            Constraints:\<newline>'' @
       ''            - Do not reference the source document.\<newline>'' @
       ''            - Do not disclose any details about the document's origin.\<newline>'' @
       ''            - Provide only the most relevant information.\<newline>'' @
       ''              \<newline>'' @
       ''            Response Format:\<newline>'' @
       ''            [Concise Answer]\<newline>'' @
       ''        '')\<close>
proof -
  have r: \<open>''               * Respond with: "I do not have enough information to answer this question."\<newline>'' =
      ''               * Respond with: "'' @ ''I do not have enough information to answer this question.'' @ ''"\<newline>''\<close>
    by simp
  have s: \<open>''               * Suggest: "Please ask a different question related to the available content."\<newline>'' =
      ''               * Suggest: "'' @ ''Please ask a different question related to the available content.'' @ ''"\<newline>''\<close>
    by simp
  show ?thesis
    unfolding prompt_tail_def refusal_sentence_def suggestion_sentence_def
    by (simp only: r s map_append [symmetric] append_assoc)
qed

lemma join_Cons:
  "join sep (x # xs) = x @ concat (map (\<lambda>y. sep @ y) xs)"
  by (induction sep xs arbitrary: x rule: join.induct) simp_all

text \<open>
  C5. The context block is the normalized text of each document found, in the order the
  retriever gave them, with a blank line (two newlines) between one and the next; the
  prompt is the template around that block and the normalized query, and it contains
  verbatim the refusal sentence and the suggestion sentence. The marker that
  \<^verbatim>\<open>handleFallbackIntent\<close> looks for is part of the refusal sentence and survives
  the normalizer.
\<close>

theorem assemble_prompt_layout:
  "assemble_prompt [] q = prompt_head @ prompt_mid @ q @ prompt_tail \<and>
   assemble_prompt (d # ds) q =
     prompt_head @ processContent d
       @ concat (map (\<lambda>doc. js ''\<newline>\<newline>'' @ processContent doc) ds)
       @ prompt_mid @ q @ prompt_tail \<and>
   str_includes (assemble_prompt relevantDocs q) refusal_sentence \<and>
   str_includes (assemble_prompt relevantDocs q) suggestion_sentence \<and>
   str_includes (processContent (JStr refusal_sentence)) insufficient_marker"
proof (intro conjI)
  show "assemble_prompt [] q = prompt_head @ prompt_mid @ q @ prompt_tail"
    by (simp add: assemble_prompt_def context_block_def)
  show "assemble_prompt (d # ds) q =
     prompt_head @ processContent d
       @ concat (map (\<lambda>doc. js ''\<newline>\<newline>'' @ processContent doc) ds)
       @ prompt_mid @ q @ prompt_tail"
    by (simp add: assemble_prompt_def context_block_def join_Cons comp_def)
  show "str_includes (assemble_prompt relevantDocs q) refusal_sentence"
    unfolding str_includes_iff assemble_prompt_def
    by (subst prompt_tail_split) (metis append_assoc)
  show "str_includes (assemble_prompt relevantDocs q) suggestion_sentence"
    unfolding str_includes_iff assemble_prompt_def
    by (subst prompt_tail_split) (metis append_assoc)
  have "processContent (JStr refusal_sentence) = insufficient_marker @ js '' to answer this question.''"
    by (simp add: refusal_sentence_def insufficient_marker_def processContent_def trim_def
        is_ws_def in_class_def is_word_def)
  then have "processContent (JStr refusal_sentence) = [] @ insufficient_marker @ js '' to answer this question.''"
    by simp
  then show "str_includes (processContent (JStr refusal_sentence)) insufficient_marker"
    unfolding str_includes_iff by blast
qed

theorem assemble_prompt_layout_witness:
  "assemble_prompt [JStr (js ''A  1''), JStr (js ''B#''), JNull] (js ''q'') =
     prompt_head @ js ''A 1\<newline>\<newline>B\<newline>\<newline>'' @ prompt_mid @ js ''q'' @ prompt_tail \<and>
   str_includes (assemble_prompt [JStr (js ''A  1''), JStr (js ''B#''), JNull] (js ''q''))
     refusal_sentence \<and>
   str_includes (assemble_prompt [JStr (js ''A  1''), JStr (js ''B#''), JNull] (js ''q''))
     suggestion_sentence"
proof -
  note t = assemble_prompt_layout
    [of "js ''q''" "JStr (js ''A  1'')" "[JStr (js ''B#''), JNull]"
        "[JStr (js ''A  1''), JStr (js ''B#''), JNull]"]
  have pc: "processContent (JStr (js ''A  1'')) = js ''A 1''"
    "processContent (JStr (js ''B#'')) = js ''B''"
    "processContent JNull = []"
    by (simp_all add: processContent_def trim_def is_ws_def in_class_def is_word_def)
  from t have "assemble_prompt [JStr (js ''A  1''), JStr (js ''B#''), JNull] (js ''q'') =
     prompt_head @ processContent (JStr (js ''A  1''))
       @ concat (map (\<lambda>doc. js ''\<newline>\<newline>'' @ processContent doc) [JStr (js ''B#''), JNull])
       @ prompt_mid @ js ''q'' @ prompt_tail"
    by (rule conjunct1 [OF conjunct2])
  with pc have e: "assemble_prompt [JStr (js ''A  1''), JStr (js ''B#''), JNull] (js ''q'') =
     prompt_head @ js ''A 1\<newline>\<newline>B\<newline>\<newline>'' @ prompt_mid @ js ''q'' @ prompt_tail"
    by simp
  from t have i: "str_includes (assemble_prompt [JStr (js ''A  1''), JStr (js ''B#''), JNull] (js ''q''))
     refusal_sentence"
    "str_includes (assemble_prompt [JStr (js ''A  1''), JStr (js ''B#''), JNull] (js ''q''))
     suggestion_sentence"
    by blast+
  from e i show ?thesis by (intro conjI)
qed

section \<open>Properties of the answering path and the handlers\<close>

lemma refusing_answer:
  "queryPDF refusing_chatbot q = Inr (refusal_sentence @ js '' '' @ suggestion_sentence)"
proof -
  have "processContent (JStr (refusal_sentence @ js '' '' @ suggestion_sentence))
      = refusal_sentence @ js '' '' @ suggestion_sentence"
    by (simp add: refusal_sentence_def suggestion_sentence_def processContent_def trim_def is_ws_def in_class_def is_word_def)
  then show ?thesis
    by (simp add: queryPDF_def refusing_chatbot_def constant_model_def constant_store_def)
qed

lemma answering_answer:
  "queryPDF answering_chatbot q = Inr (js ''Office hours 9-5, Monday to Friday.'')"
proof -
  have "processContent (JStr (js ''  Office hours: 9-5, *Monday* to Friday.''))
      = js ''Office hours 9-5, Monday to Friday.''"
    by (simp add: processContent_def trim_def is_ws_def in_class_def is_word_def)
  then show ?thesis
    by (simp add: queryPDF_def answering_chatbot_def constant_model_def constant_store_def)
qed

lemma refusing_includes:
  "str_includes (refusal_sentence @ js '' '' @ suggestion_sentence) insufficient_marker"
proof -
  have "refusal_sentence @ js '' '' @ suggestion_sentence =
      [] @ insufficient_marker @ (js '' to answer this question. '' @ suggestion_sentence)"
    by (simp add: refusal_sentence_def insufficient_marker_def)
  then show ?thesis unfolding str_includes_iff by blast
qed

lemma answering_not_includes:
  "\<not> str_includes (js ''Office hours 9-5, Monday to Friday.'') insufficient_marker"
  by (simp add: insufficient_marker_def)

text \<open>
  Once both services are set, the webhook runs \<^verbatim>\<open>handleFallbackIntent\<close> for the two
  question-answering intents and \<^verbatim>\<open>handleUserInfoIntent\<close> for the contact intent. The
  query the handlers see is the agent's query text, or the request's, or
  \<^verbatim>\<open>'No query found'\<close> when both are empty.
\<close>

lemma webhook_dispatch:
  assumes "pdfChatbot s = Some chatbot" and "sheetdbService s = Some service"
  shows "intent a = js ''Default Fallback Intent'' \<or> intent a = js ''PDF_Query_Intent'' \<Longrightarrow>
           dialogflow_webhook s now queryText a db =
             Fulfilled (handleFallbackIntent chatbot
               (js_or (js_or (agent_query a) queryText) (JStr (js ''No query found''))) a) db"
    and "intent a = js ''Collect_User_Info'' \<Longrightarrow>
           dialogflow_webhook s now queryText a db =
             Fulfilled (fst (handleUserInfoIntent service now a db))
                       (snd (handleUserInfoIntent service now a db))"
  using assms
  by (auto simp: dialogflow_webhook_def intentMap_def Let_def split: prod.splits)

lemma webhook_userQuery:
  "truthy (agent_query a) \<Longrightarrow>
     js_or (js_or (agent_query a) queryText) (JStr (js ''No query found'')) = agent_query a"
  by (simp add: js_or_def)

text \<open>
  C10. An answer of \<^verbatim>\<open>queryPDF\<close> is \<open>processContent\<close> applied to what the model
  returned for the assembled prompt, so all its code units are in the allowed set.
\<close>

theorem queryPDF_answer_normalized:
  assumes "queryPDF this q = Inr answer"
  shows "\<exists>store relevantDocs content.
           vectorStore this = Some store \<and>
           store 4 (processContent q) = Inr relevantDocs \<and>
           llm this (assemble_prompt relevantDocs (processContent q)) = Inr content \<and>
           answer = processContent content \<and>
           set answer \<subseteq> allowed_set"
proof -
  have "set (processContent c) \<subseteq> allowed_set" for c
    using all_allowed_processContent [of c]
    by (auto simp: all_allowed_def list_all_iff in_class_allowed_set)
  with assms show ?thesis
    by (auto simp: queryPDF_def Let_def split: option.splits sum.splits)
qed

theorem queryPDF_answer_normalized_witness:
  "queryPDF answering_chatbot (JStr (js ''What are your office hours?''))
     = Inr (js ''Office hours 9-5, Monday to Friday.'') \<and>
   (\<exists>store relevantDocs content.
       vectorStore answering_chatbot = Some store \<and>
       store 4 (processContent (JStr (js ''What are your office hours?''))) = Inr relevantDocs \<and>
       llm answering_chatbot
         (assemble_prompt relevantDocs (processContent (JStr (js ''What are your office hours?''))))
         = Inr content \<and>
       js ''Office hours 9-5, Monday to Friday.'' = processContent content \<and>
       set (js ''Office hours 9-5, Monday to Friday.'') \<subseteq> allowed_set)"
  using queryPDF_answer_normalized [OF answering_answer] answering_answer by blast

text \<open>
  C1. For a session in state Answering whose turn reaches \<^verbatim>\<open>handleFallbackIntent\<close>
  with query \<open>userQuery\<close> and for which \<^verbatim>\<open>queryPDF\<close> gives an answer: if the answer
  contains the marker, the session is then awaiting contact information with that very
  query stored and two turns remaining, and the reply is the contact request; otherwise
  the session stays in Answering, the reply is the answer and no context is stored.
\<close>

theorem handleFallbackIntent_transition:
  assumes "state (conversation a) = Answering"
    and "queryPDF chatbot userQuery = Inr answer"
  shows "(str_includes answer insufficient_marker \<longrightarrow>
            conversation (handleFallbackIntent chatbot userQuery a) =
              \<lparr>state = AwaitingContactInfo, originalQuery = Some userQuery, remainingTurns = 2\<rparr> \<and>
            responses (handleFallbackIntent chatbot userQuery a) =
              responses a @ [contact_request_message]) \<and>
         (\<not> str_includes answer insufficient_marker \<longrightarrow>
            state (conversation (handleFallbackIntent chatbot userQuery a)) = Answering \<and>
            responses (handleFallbackIntent chatbot userQuery a) = responses a @ [answer] \<and>
            contexts (handleFallbackIntent chatbot userQuery a) = contexts a)"
  using assms
  by (simp add: handleFallbackIntent_def conversation_def getContext_def setContext_def
      agent_add_def)

theorem handleFallbackIntent_transition_witness:
  "state (conversation (fresh_agent (js ''PDF_Query_Intent'') (js ''refund policy''))) = Answering \<and>
   queryPDF refusing_chatbot (JStr (js ''refund policy''))
     = Inr (refusal_sentence @ js '' '' @ suggestion_sentence) \<and>
   str_includes (refusal_sentence @ js '' '' @ suggestion_sentence) insufficient_marker \<and>
   conversation (handleFallbackIntent refusing_chatbot (JStr (js ''refund policy''))
       (fresh_agent (js ''PDF_Query_Intent'') (js ''refund policy''))) =
     \<lparr>state = AwaitingContactInfo, originalQuery = Some (JStr (js ''refund policy'')),
      remainingTurns = 2\<rparr> \<and>
   responses (handleFallbackIntent refusing_chatbot (JStr (js ''refund policy''))
       (fresh_agent (js ''PDF_Query_Intent'') (js ''refund policy''))) = [contact_request_message] \<and>
   queryPDF answering_chatbot (JStr (js ''office hours''))
     = Inr (js ''Office hours 9-5, Monday to Friday.'') \<and>
   \<not> str_includes (js ''Office hours 9-5, Monday to Friday.'') insufficient_marker \<and>
   state (conversation (handleFallbackIntent answering_chatbot (JStr (js ''office hours''))
       (fresh_agent (js ''PDF_Query_Intent'') (js ''office hours'')))) = Answering \<and>
   responses (handleFallbackIntent answering_chatbot (JStr (js ''office hours''))
       (fresh_agent (js ''PDF_Query_Intent'') (js ''office hours'')))
     = [js ''Office hours 9-5, Monday to Friday.'']"
proof -
  have s: "state (conversation (fresh_agent i q)) = Answering" for i q
    by (simp add: conversation_def getContext_def fresh_agent_def)
  have r: "responses (fresh_agent i q) = []" for i q
    by (simp add: fresh_agent_def)
  from handleFallbackIntent_transition [OF s refusing_answer]
    handleFallbackIntent_transition [OF s answering_answer]
    refusing_includes answering_not_includes s r refusing_answer answering_answer
  show ?thesis by simp
qed

text \<open>
  C2, as the code has it. \<^verbatim>\<open>handleUserInfoIntent\<close> never writes a context: after a
  contact turn the \<^verbatim>\<open>awaiting_user_info\<close> context is still there, whether the sheet
  took the row or not, so the session has not gone back to Answering.
\<close>

theorem handleUserInfoIntent_keeps_context:
  "state (conversation (fst (handleUserInfoIntent accepting_sheet
      (js ''2024-05-01T10:00:00.000Z'') awaiting_agent []))) = AwaitingContactInfo \<and>
   state (conversation (fst (handleUserInfoIntent failing_sheet
      (js ''2024-05-01T10:00:00.000Z'') awaiting_agent []))) = AwaitingContactInfo"
  by (simp add: handleUserInfoIntent_def addUnresolvedQuery_def accepting_sheet_def
      failing_sheet_def agent_add_def conversation_def getContext_def awaiting_agent_def)

text \<open>
  C2, amended. \<^verbatim>\<open>handleUserInfoIntent\<close> builds the row from the stored original query
  and the clock and hands it to the SheetDB client; whatever the client answers, the
  handler returns normally with one more reply, the acknowledgement when the row was
  taken and the apology when the client threw, and with the sheet as the client left it;
  the contexts of the session, and so its conversation state, are left as they were.
\<close>

theorem handleUserInfoIntent_outcome:
  assumes "client service (unresolved_query_of now a) db = (result, db')"
  shows "handleUserInfoIntent service now a db =
           (agent_add a (case result of Inr response \<Rightarrow> acknowledgement_message
                                      | Inl e \<Rightarrow> saving_apology), db') \<and>
         contexts (fst (handleUserInfoIntent service now a db)) = contexts a \<and>
         conversation (fst (handleUserInfoIntent service now a db)) = conversation a \<and>
         timestamp (unresolved_query_of now a) = now \<and>
         (\<forall>q. originalQuery (conversation a) = Some q \<and> truthy q \<longrightarrow>
              query (unresolved_query_of now a) = q)"
  using assms
  by (auto simp: handleUserInfoIntent_def addUnresolvedQuery_def agent_add_def
      conversation_def getContext_def unresolved_query_of_def originalQuery_of_def
      js_or_def get_prop_def
      split: sum.splits option.splits if_splits)

theorem handleUserInfoIntent_outcome_witness:
  "client accepting_sheet (unresolved_query_of (js ''2024-05-01T10:00:00.000Z'') awaiting_agent) []
     = (Inr JObj, [\<lparr>name = JStr (js ''Ana''), email = JStr (js ''ana@x.com''),
                     query = JStr (js ''refund policy''),
                     timestamp = js ''2024-05-01T10:00:00.000Z''\<rparr>]) \<and>
   handleUserInfoIntent accepting_sheet (js ''2024-05-01T10:00:00.000Z'') awaiting_agent []
     = (agent_add awaiting_agent acknowledgement_message,
        [\<lparr>name = JStr (js ''Ana''), email = JStr (js ''ana@x.com''),
          query = JStr (js ''refund policy''),
          timestamp = js ''2024-05-01T10:00:00.000Z''\<rparr>]) \<and>
   client failing_sheet (unresolved_query_of (js ''2024-05-01T10:00:00.000Z'') awaiting_agent) []
     = (Inl (Error (js ''503'')), []) \<and>
   handleUserInfoIntent failing_sheet (js ''2024-05-01T10:00:00.000Z'') awaiting_agent []
     = (agent_add awaiting_agent saving_apology, [])"
proof -
  have q: "unresolved_query_of (js ''2024-05-01T10:00:00.000Z'') awaiting_agent =
      \<lparr>name = JStr (js ''Ana''), email = JStr (js ''ana@x.com''),
       query = JStr (js ''refund policy''), timestamp = js ''2024-05-01T10:00:00.000Z''\<rparr>"
    by (simp add: unresolved_query_of_def originalQuery_of_def awaiting_agent_def
        getContext_def get_prop_def js_or_def)
  have a: "client accepting_sheet
      (unresolved_query_of (js ''2024-05-01T10:00:00.000Z'') awaiting_agent) []
     = (Inr JObj, [unresolved_query_of (js ''2024-05-01T10:00:00.000Z'') awaiting_agent])"
    by (simp add: accepting_sheet_def)
  have f: "client failing_sheet
      (unresolved_query_of (js ''2024-05-01T10:00:00.000Z'') awaiting_agent) []
     = (Inl (Error (js ''503'')), [])"
    by (simp add: failing_sheet_def)
  from handleUserInfoIntent_outcome [OF a] handleUserInfoIntent_outcome [OF f] a f q
  show ?thesis by simp
qed

text \<open>
  C9. When the turn has no \<^verbatim>\<open>awaiting_user_info\<close> context, or one without an
  \<^verbatim>\<open>original_query\<close> parameter, the row still goes to the SheetDB client, with
  \<^verbatim>\<open>'N/A'\<close> as its query.
\<close>

theorem handleUserInfoIntent_without_original_query:
  assumes "lacks_original_query a"
  shows "query (unresolved_query_of now a) = JStr (js ''N/A'') \<and>
         snd (handleUserInfoIntent service now a db) =
           snd (client service (unresolved_query_of now a) db)"
  using assms
  by (auto simp: lacks_original_query_def unresolved_query_of_def originalQuery_of_def
      js_or_def get_prop_def handleUserInfoIntent_def addUnresolvedQuery_def
      split: option.splits sum.splits prod.splits)

theorem handleUserInfoIntent_without_original_query_witness:
  "lacks_original_query (fresh_agent (js ''Collect_User_Info'') (js ''ana@x.com'')) \<and>
   query (unresolved_query_of (js ''2024-05-01T10:00:00.000Z'')
            (fresh_agent (js ''Collect_User_Info'') (js ''ana@x.com''))) = JStr (js ''N/A'') \<and>
   snd (handleUserInfoIntent accepting_sheet (js ''2024-05-01T10:00:00.000Z'')
          (fresh_agent (js ''Collect_User_Info'') (js ''ana@x.com'')) []) =
     [\<lparr>name = JUndefined, email = JUndefined, query = JStr (js ''N/A''),
       timestamp = js ''2024-05-01T10:00:00.000Z''\<rparr>]"
proof -
  have l: "lacks_original_query (fresh_agent (js ''Collect_User_Info'') (js ''ana@x.com''))"
    by (simp add: lacks_original_query_def fresh_agent_def getContext_def)
  have n: "name (unresolved_query_of t (fresh_agent i q)) = JUndefined"
    and e: "email (unresolved_query_of t (fresh_agent i q)) = JUndefined"
    and t: "timestamp (unresolved_query_of t (fresh_agent i q)) = t" for t i q
    by (simp_all add: unresolved_query_of_def fresh_agent_def get_prop_def)
  from handleUserInfoIntent_without_original_query
    [OF l, of "js ''2024-05-01T10:00:00.000Z''" accepting_sheet "[]"] l
  have "query (unresolved_query_of (js ''2024-05-01T10:00:00.000Z'')
            (fresh_agent (js ''Collect_User_Info'') (js ''ana@x.com''))) = JStr (js ''N/A'')"
    and "snd (handleUserInfoIntent accepting_sheet (js ''2024-05-01T10:00:00.000Z'')
          (fresh_agent (js ''Collect_User_Info'') (js ''ana@x.com'')) []) =
        [unresolved_query_of (js ''2024-05-01T10:00:00.000Z'')
            (fresh_agent (js ''Collect_User_Info'') (js ''ana@x.com''))]"
    by (simp_all add: accepting_sheet_def)
  with l n e t show ?thesis
    by (simp add: unresolved_query.equality)
qed

section \<open>Startup\<close>

lemma loadAndProcessPDF_builds:
  "loadAndProcessPDF read_pdf splitter fromDocuments this pdfPath = Inr chatbot \<Longrightarrow>
     vectorStore chatbot \<noteq> None"
  by (auto simp: loadAndProcessPDF_def Let_def split: sum.splits)

text \<open>
  C4. \<^verbatim>\<open>queryPDF\<close> on a chatbot whose vector store is not built fails at once with the
  error \<^verbatim>\<open>PDF not loaded\<close>, asking neither the retriever nor the model; and in every
  state of the startup in which the index is not built the webhook answers 503
  \<^verbatim>\<open>Services not initialized\<close>, running no handler and giving no reply.
\<close>

theorem not_ready_fails_fast:
  "(vectorStore this = None \<longrightarrow>
      queryPDF this q = Inl (Error (js ''PDF not loaded. Call loadAndProcessPDF first.''))) \<and>
   (startup read_pdf splitter fromDocuments PDF_PATH s \<longrightarrow> \<not> index_built s \<longrightarrow>
      dialogflow_webhook s now queryText a db = HttpStatus 503 (js ''Services not initialized''))"
proof (intro conjI impI)
  assume "vectorStore this = None"
  then show "queryPDF this q = Inl (Error (js ''PDF not loaded. Call loadAndProcessPDF first.''))"
    by (simp add: queryPDF_def)
next
  assume "startup read_pdf splitter fromDocuments PDF_PATH s" and nb: "\<not> index_built s"
  then show "dialogflow_webhook s now queryText a db = HttpStatus 503 (js ''Services not initialized'')"
  proof cases
    case undefined_vars
    then show ?thesis by (simp add: dialogflow_webhook_def)
  next
    case (constructed model)
    then show ?thesis by (simp add: dialogflow_webhook_def)
  next
    case (loaded model chatbot)
    then show ?thesis by (simp add: dialogflow_webhook_def)
  next
    case (initialized model chatbot service)
    with nb loadAndProcessPDF_builds show ?thesis
      by (auto simp: index_built_def)
  qed
qed

theorem not_ready_fails_fast_witness:
  "vectorStore (new_PDFChatbot (constant_model JNull)) = None \<and>
   queryPDF (new_PDFChatbot (constant_model JNull)) (JStr (js ''office hours''))
     = Inl (Error (js ''PDF not loaded. Call loadAndProcessPDF first.'')) \<and>
   startup sample_read_pdf whole_text_splitter sample_fromDocuments (js ''faqs.pdf'')
     loading_services \<and>
   \<not> index_built loading_services \<and>
   dialogflow_webhook loading_services (js ''2024-05-01T10:00:00.000Z'') JUndefined
     (fresh_agent (js ''PDF_Query_Intent'') (js ''office hours'')) []
     = HttpStatus 503 (js ''Services not initialized'')"
proof -
  have v: "vectorStore (new_PDFChatbot (constant_model JNull)) = None"
    by (simp add: new_PDFChatbot_def)
  have s: "startup sample_read_pdf whole_text_splitter sample_fromDocuments (js ''faqs.pdf'')
     loading_services"
    unfolding loading_services_def by (rule startup.constructed)
  have n: "\<not> index_built loading_services"
    by (simp add: index_built_def loading_services_def new_PDFChatbot_def)
  note t = not_ready_fails_fast
    [of "new_PDFChatbot (constant_model JNull)" "JStr (js ''office hours'')"
        sample_read_pdf whole_text_splitter sample_fromDocuments "js ''faqs.pdf''"
        loading_services "js ''2024-05-01T10:00:00.000Z''" JUndefined
        "fresh_agent (js ''PDF_Query_Intent'') (js ''office hours'')" "[]"]
  from t v have q: "queryPDF (new_PDFChatbot (constant_model JNull)) (JStr (js ''office hours''))
     = Inl (Error (js ''PDF not loaded. Call loadAndProcessPDF first.''))"
    by blast
  from t s n have w: "dialogflow_webhook loading_services (js ''2024-05-01T10:00:00.000Z'')
     JUndefined (fresh_agent (js ''PDF_Query_Intent'') (js ''office hours'')) []
     = HttpStatus 503 (js ''Services not initialized'')"
    by blast
  from v q s n w show ?thesis by (intro conjI)
qed

section \<open>Properties of the vector index\<close>

lemma build_chunks: "build embedder chunks = Inr index \<Longrightarrow> map fst index = chunks"
  by (induction chunks arbitrary: index) (auto split: sum.splits)

lemma ranks_before_trans: "ranks_before x y \<Longrightarrow> ranks_before y z \<Longrightarrow> ranks_before x z"
  by (cases x; cases y; cases z) auto

lemma ranks_before_total:
  "chunk_id (fst x) \<noteq> chunk_id (fst y) \<Longrightarrow> \<not> ranks_before x y \<Longrightarrow> ranks_before y x"
  by (cases x; cases y) auto

lemma set_insert_ranked: "set (insert_ranked x ys) = insert x (set ys)"
  by (induction ys) auto

lemma length_insert_ranked: "length (insert_ranked x ys) = Suc (length ys)"
  by (induction ys) auto

lemma set_rank: "set (rank xs) = set xs"
  by (induction xs) (auto simp: set_insert_ranked)

lemma length_rank: "length (rank xs) = length xs"
  by (induction xs) (auto simp: length_insert_ranked)

lemma sorted_insert_ranked:
  "sorted_wrt ranks_before ys \<Longrightarrow> \<forall>y\<in>set ys. chunk_id (fst y) \<noteq> chunk_id (fst x) \<Longrightarrow>
     sorted_wrt ranks_before (insert_ranked x ys)"
proof (induction ys)
  case Nil
  then show ?case by simp
next
  case (Cons y ys)
  show ?case
  proof (cases "ranks_before x y")
    case True
    with Cons.prems have "\<forall>z\<in>set ys. ranks_before x z"
      by (auto intro: ranks_before_trans)
    with True Cons.prems show ?thesis by simp
  next
    case False
    with Cons.prems have "ranks_before y x"
      by (intro ranks_before_total) auto
    with False Cons show ?thesis by (auto simp: set_insert_ranked)
  qed
qed

lemma sorted_rank:
  "distinct (map (\<lambda>y. chunk_id (fst y)) xs) \<Longrightarrow> sorted_wrt ranks_before (rank xs)"
proof (induction xs)
  case Nil
  then show ?case by simp
next
  case (Cons x xs)
  from Cons.prems have fresh: "chunk_id (fst x) \<notin> (\<lambda>y. chunk_id (fst y)) ` set xs"
    and d: "distinct (map (\<lambda>y. chunk_id (fst y)) xs)" by simp_all
  have "\<forall>y\<in>set (rank xs). chunk_id (fst y) \<noteq> chunk_id (fst x)"
  proof
    fix y
    assume "y \<in> set (rank xs)"
    then have "y \<in> set xs" by (simp add: set_rank)
    then have "chunk_id (fst y) \<in> (\<lambda>y. chunk_id (fst y)) ` set xs" by (rule imageI)
    with fresh show "chunk_id (fst y) \<noteq> chunk_id (fst x)" by metis
  qed
  with Cons.IH [OF d] show ?case by (simp add: sorted_insert_ranked)
qed

lemma map_fst_scored: "map fst (scored similarity index q) = map fst index"
  by (induction index) (auto simp: scored_def)

lemma queryPDF_asks_for_four:
  "queryPDF (this\<lparr>vectorStore := Some store\<rparr>) q =
   queryPDF (this\<lparr>vectorStore := Some (\<lambda>k. store default_k)\<rparr>) q"
  by (auto simp: queryPDF_def default_k_def Let_def split: sum.splits)

text \<open>
  C6. For an index built from chunks with distinct ids, a query with \<open>k\<close> returns
  \<open>min k n\<close> scored chunks of the index, each ranking strictly before the next (higher
  similarity first, equal similarity by ascending chunk id) and before every chunk left
  out; the \<open>k\<close> of \<^verbatim>\<open>queryPDF\<close> is 4; the same chunks, embeddings and query give the
  same result.
\<close>

theorem index_query_top_k:
  assumes "build embedder chunks = Inr index" and "distinct (map chunk_id chunks)"
  shows "length (index_query similarity index q k) = min k (length chunks) \<and>
         sorted_wrt ranks_before (index_query similarity index q k) \<and>
         set (index_query similarity index q k) \<subseteq> set (scored similarity index q) \<and>
         (\<forall>x\<in>set (index_query similarity index q k).
            \<forall>y\<in>set (scored similarity index q) - set (index_query similarity index q k).
              ranks_before x y) \<and>
         default_k = 4 \<and>
         queryPDF (this\<lparr>vectorStore := Some store\<rparr>) userQuery =
           queryPDF (this\<lparr>vectorStore := Some (\<lambda>k. store default_k)\<rparr>) userQuery \<and>
         (\<forall>index'. build embedder chunks = Inr index' \<longrightarrow>
            index_query similarity index' q k = index_query similarity index q k)"
proof -
  let ?xs = "scored similarity index q"
  from assms(1) have m: "map fst index = chunks" by (rule build_chunks)
  then have len: "length index = length chunks" by (metis length_map)
  have "map (\<lambda>y. chunk_id (fst y)) ?xs = map chunk_id (map fst ?xs)" by simp
  with m assms(2) have d: "distinct (map (\<lambda>y. chunk_id (fst y)) ?xs)"
    by (simp only: map_fst_scored)
  then have s: "sorted_wrt ranks_before (rank ?xs)" by (rule sorted_rank)
  have 1: "length (index_query similarity index q k) = min k (length chunks)"
    using len by (simp add: index_query_def length_rank scored_def min.commute)
  have "rank ?xs = take k (rank ?xs) @ drop k (rank ?xs)" by simp
  with s have sp: "sorted_wrt ranks_before (take k (rank ?xs) @ drop k (rank ?xs))" by simp
  then have 2: "sorted_wrt ranks_before (index_query similarity index q k)"
    by (simp add: index_query_def sorted_wrt_append)
  have 3: "set (index_query similarity index q k) \<subseteq> set ?xs"
    using set_take_subset [of k "rank ?xs"] by (simp add: index_query_def set_rank)
  from sp have cross: "\<forall>x\<in>set (take k (rank ?xs)). \<forall>y\<in>set (drop k (rank ?xs)). ranks_before x y"
    unfolding sorted_wrt_append by blast
  have un: "set ?xs = set (take k (rank ?xs)) \<union> set (drop k (rank ?xs))"
    by (metis append_take_drop_id set_append set_rank)
  from cross un have 4: "\<forall>x\<in>set (index_query similarity index q k).
            \<forall>y\<in>set ?xs - set (index_query similarity index q k). ranks_before x y"
    unfolding index_query_def by blast
  from assms(1) have 5: "\<forall>index'. build embedder chunks = Inr index' \<longrightarrow>
            index_query similarity index' q k = index_query similarity index q k"
    by simp
  have 0: "default_k = 4" by (simp add: default_k_def)
  note 6 = queryPDF_asks_for_four [where this = this and store = store and q = userQuery]
  from 1 2 3 4 0 6 5 show ?thesis by (intro conjI)
qed

lemma sample_cosines:
  "cosine_similarity [1, 0] [1, 0] = 1" "cosine_similarity [1, 0] [0, 1] = 0"
  by (simp_all add: cosine_similarity_def)

lemma sample_build: "build sample_embedder sample_chunks = Inr sample_index"
  by (simp add: sample_embedder_def sample_chunks_def sample_index_def)

lemma sample_query:
  "index_query cosine_similarity sample_index [1, 0] 2 =
     [(\<lparr>chunk_id = 1, chunk_text = js ''hours'', sourceOffset = 4\<rparr>, 1),
      (\<lparr>chunk_id = 2, chunk_text = js ''hours'', sourceOffset = 9\<rparr>, 1)]"
  by (simp add: index_query_def scored_def sample_index_def sample_cosines)

theorem index_query_top_k_witness:
  "build sample_embedder sample_chunks = Inr sample_index \<and>
   distinct (map chunk_id sample_chunks) \<and>
   length (index_query cosine_similarity sample_index [1, 0] 2) = min 2 (length sample_chunks) \<and>
   sorted_wrt ranks_before (index_query cosine_similarity sample_index [1, 0] 2) \<and>
   index_query cosine_similarity sample_index [1, 0] 2 =
     [(\<lparr>chunk_id = 1, chunk_text = js ''hours'', sourceOffset = 4\<rparr>, 1),
      (\<lparr>chunk_id = 2, chunk_text = js ''hours'', sourceOffset = 9\<rparr>, 1)]"
proof -
  have d: "distinct (map chunk_id sample_chunks)"
    by (simp add: sample_chunks_def)
  note t = index_query_top_k [OF sample_build d, of cosine_similarity "[1, 0]" 2]
  from t have l: "length (index_query cosine_similarity sample_index [1, 0] 2) =
      min 2 (length sample_chunks)"
    by (rule conjunct1)
  from t have s: "sorted_wrt ranks_before (index_query cosine_similarity sample_index [1, 0] 2)"
    by (rule conjunct1 [OF conjunct2])
  from sample_build d l s sample_query show ?thesis by (intro conjI)
qed

end
